theory Spec2Isabelle
  imports Main "HOL-Library.Sublist"
begin

section \<open>Certificate pin extractor (scripts/extract-pins.py)\<close>

subsection \<open>Python strings\<close>

text \<open>
  A Python \<open>str\<close> is a sequence of Unicode code points; it is modelled as a list of
  natural numbers, one per code point. \<open>str\<close> turns an ASCII literal into such a list.
\<close>

type_synonym pystr = "nat list"

definition str :: "string \<Rightarrow> pystr" where
  "str s = map of_char s"

text \<open>
  \<open>str.isspace\<close> for one code point: the characters CPython treats as whitespace
  (bidirectional class WS, B or S, or general category Zs).
\<close>

definition py_isspace :: "nat \<Rightarrow> bool" where
  "py_isspace c \<longleftrightarrow>
     (0x09 \<le> c \<and> c \<le> 0x0D) \<or> (0x1C \<le> c \<and> c \<le> 0x20) \<or> c = 0x85 \<or> c = 0xA0 \<or>
     c = 0x1680 \<or> (0x2000 \<le> c \<and> c \<le> 0x200A) \<or> c = 0x2028 \<or> c = 0x2029 \<or>
     c = 0x202F \<or> c = 0x205F \<or> c = 0x3000"

definition lstrip :: "pystr \<Rightarrow> pystr" where
  "lstrip s = dropWhile py_isspace s"

definition rstrip :: "pystr \<Rightarrow> pystr" where
  "rstrip s = rev (dropWhile py_isspace (rev s))"

text \<open>\<open>s.strip()\<close> with no argument: leading and trailing whitespace removed.\<close>

definition strip :: "pystr \<Rightarrow> pystr" where
  "strip s = lstrip (rstrip s)"

subsection \<open>Constants of the script\<close>

definition RED :: pystr where "RED = 27 # str ''[0;31m''"
definition GREEN :: pystr where "GREEN = 27 # str ''[0;32m''"
definition YELLOW :: pystr where "YELLOW = 27 # str ''[1;33m''"
definition BLUE :: pystr where "BLUE = 27 # str ''[0;34m''"
definition NC :: pystr where "NC = 27 # str ''[0m''"

text \<open>The check mark U+2713, the ballot cross U+2717 and the double quote U+0022.\<close>

definition CHECK :: pystr where "CHECK = [0x2713]"
definition CROSS :: pystr where "CROSS = [0x2717]"
definition DQ :: pystr where "DQ = [0x22]"

definition PROVIDERS :: "(pystr \<times> pystr) list" where
  "PROVIDERS =
    [(str ''api.deepgram.com'', str ''Deepgram (STT + TTS)''),
     (str ''api.assemblyai.com'', str ''AssemblyAI (STT)''),
     (str ''api.groq.com'', str ''Groq (STT)''),
     (str ''api.elevenlabs.io'', str ''ElevenLabs (TTS)''),
     (str ''api.openai.com'', str ''OpenAI (LLM)''),
     (str ''api.anthropic.com'', str ''Anthropic (LLM)'')]"

definition FAILED_TO_EXTRACT :: pystr where
  "FAILED_TO_EXTRACT = str ''FAILED_TO_EXTRACT''"

subsection \<open>The outside world: standard output and the external tool\<close>

text \<open>
  The state of a run is what has been printed so far, one entry per call of \<open>print\<close>
  (each written to standard output followed by a newline), and the commands handed to
  \<open>subprocess.run\<close> so far.
\<close>

record world =
  printed :: "pystr list"
  invoked :: "pystr list"

definition print :: "pystr \<Rightarrow> world \<Rightarrow> world" where
  "print s w = w\<lparr>printed := printed w @ [s]\<rparr>"

definition prints :: "pystr list \<Rightarrow> world \<Rightarrow> world" where
  "prints ls w = fold print ls w"

text \<open>
  What \<open>subprocess.run(cmd, shell=True, capture_output=True, text=True, timeout=10)\<close>
  does: it returns a completed process with an exit status and the decoded standard
  output, or it raises \<open>TimeoutExpired\<close> once the 10 seconds are over, or it raises
  another instance of \<open>Exception\<close> (an \<open>OSError\<close> when the shell cannot be started,
  say), which carries the text \<open>str(e)\<close>. An interrupt signal ends the process and is
  no outcome of the invocation. The behaviour of the tool chain is a parameter
  \<open>sh\<close>, from the command line to the outcome.
\<close>

datatype run_exn = TimeoutExpired | OtherException pystr

record completed_process =
  returncode :: int
  stdout :: pystr

type_synonym shell = "pystr \<Rightarrow> run_exn + completed_process"

definition subprocess_run :: "shell \<Rightarrow> pystr \<Rightarrow> world \<Rightarrow> (run_exn + completed_process) \<times> world" where
  "subprocess_run sh cmd w = (sh cmd, w\<lparr>invoked := invoked w @ [cmd]\<rparr>)"

subsection \<open>extract_pin\<close>

text \<open>
  The command line built by the f-string. A backslash at the end of a line of the
  literal joins it with the next one, so the only newlines are the first and the last.
\<close>

definition pin_command :: "pystr \<Rightarrow> pystr" where
  "pin_command domain =
     [10] @ str ''        echo | openssl s_client -connect '' @ domain @ str '':443 -servername '' @ domain
       @ str '' 2>/dev/null | ''
       @ str ''        openssl x509 -pubkey -noout 2>/dev/null | ''
       @ str ''        openssl pkey -pubin -outform der 2>/dev/null | ''
       @ str ''        openssl dgst -sha256 -binary | ''
       @ str ''        openssl enc -base64'' @ [10]
       @ str ''        ''"

text \<open>
  The \<open>try\<close> block runs the command once; the two \<open>except\<close> clauses turn every
  exception of the invocation into \<open>None\<close> after printing a line. The result is
  \<open>Inl e\<close> when an exception \<open>e\<close> leaves the function.
\<close>

definition extract_pin :: "shell \<Rightarrow> pystr \<Rightarrow> world \<Rightarrow> (run_exn + pystr option) \<times> world" where
  "extract_pin sh domain w =
     (case subprocess_run sh (pin_command domain) w of
        (Inr result, w1) \<Rightarrow>
          if returncode result = 0 \<and> strip (stdout result) \<noteq> [] then
            (let pin_hash = strip (stdout result)
             in (Inr (Some (str ''sha256/'' @ pin_hash)), w1))
          else (Inr None, w1)
      | (Inl TimeoutExpired, w1) \<Rightarrow>
          (Inr None, print (RED @ str ''  '' @ CROSS @ str '' Timeout connecting to '' @ domain @ NC) w1)
      | (Inl (OtherException e), w1) \<Rightarrow>
          (Inr None, print (RED @ str ''  '' @ CROSS @ str '' Error: '' @ e @ NC) w1))"

subsection \<open>The results mapping\<close>

text \<open>
  A Python \<open>dict\<close> keeps its keys in insertion order; assigning to a key that is
  present replaces the value in place. It is an association list with distinct keys:
  \<open>pins[k] = v\<close> is \<open>dict_setitem\<close>, \<open>pins[k]\<close> is \<open>dict_getitem\<close> (\<open>None\<close> where Python
  raises \<open>KeyError\<close>), \<open>pins.items()\<close> is the list itself and \<open>pins.keys()\<close> its first
  components.
\<close>

type_synonym dict = "(pystr \<times> pystr) list"

fun dict_setitem :: "dict \<Rightarrow> pystr \<Rightarrow> pystr \<Rightarrow> dict" where
  "dict_setitem [] k v = [(k, v)]"
| "dict_setitem ((k', v') # rest) k v =
     (if k' = k then (k, v) # rest else (k', v') # dict_setitem rest k v)"

definition dict_getitem :: "dict \<Rightarrow> pystr \<Rightarrow> pystr option" where
  "dict_getitem d k = map_of d k"

definition dict_keys :: "dict \<Rightarrow> pystr list" where
  "dict_keys d = map fst d"

text \<open>\<open>d.get(k, default)\<close>.\<close>

definition dict_get :: "dict \<Rightarrow> pystr \<Rightarrow> pystr \<Rightarrow> pystr" where
  "dict_get d k dflt = (case map_of d k of Some v \<Rightarrow> v | None \<Rightarrow> dflt)"

subsection \<open>main\<close>

text \<open>
  An exception that leaves \<open>main\<close> is one that left \<open>extract_pin\<close>, or the \<open>KeyError\<close>
  of \<open>pins[domain]\<close>.
\<close>

datatype exn = Propagated run_exn | KeyError pystr

definition rule50 :: pystr where
  "rule50 = replicate 50 (of_char (CHR ''=''))"

definition banner :: "world \<Rightarrow> world" where
  "banner w = prints [rule50, str ''Certificate Pin Extractor for UnaMentis'', rule50, []] w"

text \<open>
  The extraction loop over the provider list. \<open>if pin:\<close> holds for a string that is
  not empty; \<open>None\<close> and the empty string take the \<open>else\<close> branch.
\<close>

fun extraction_phase :: "shell \<Rightarrow> (pystr \<times> pystr) list \<Rightarrow> dict \<Rightarrow> world \<Rightarrow> (run_exn + dict) \<times> world" where
  "extraction_phase sh [] pins w = (Inr pins, w)"
| "extraction_phase sh ((domain, provider_name) # rest) pins w =
     (let w1 = print (YELLOW @ str ''Extracting pin for '' @ provider_name @ str '' ('' @ domain
                       @ str '')...'' @ NC) w
      in case extract_pin sh domain w1 of
           (Inl e, w2) \<Rightarrow> (Inl e, w2)
         | (Inr pin, w2) \<Rightarrow>
             (let failed = (dict_setitem pins domain FAILED_TO_EXTRACT,
                            print (RED @ str ''  '' @ CROSS @ str '' Failed to extract pin'' @ NC) w2);
                  (pins', w3) =
                    (case pin of
                       Some p \<Rightarrow>
                         if p \<noteq> [] then
                           (dict_setitem pins domain p,
                            print (GREEN @ str ''  '' @ CHECK @ str '' Pin: '' @ p @ NC) w2)
                         else failed
                     | None \<Rightarrow> failed)
              in extraction_phase sh rest pins' (print [] w3)))"

fun summary_loop :: "(pystr \<times> pystr) list \<Rightarrow> world \<Rightarrow> world" where
  "summary_loop [] w = w"
| "summary_loop ((domain, pin) # rest) w =
     (let status = (if pin \<noteq> FAILED_TO_EXTRACT then GREEN @ CHECK @ NC else RED @ CROSS @ NC)
      in summary_loop rest (print (status @ str '' '' @ domain @ str '': '' @ pin) w))"

definition summary_phase :: "dict \<Rightarrow> world \<Rightarrow> world" where
  "summary_phase pins w =
     print [] (summary_loop pins
       (prints [rule50, str ''Certificate Pins Summary'', rule50, []] w))"

definition provider_comments :: dict where
  "provider_comments =
    [(str ''api.deepgram.com'', str ''Deepgram (STT + TTS)''),
     (str ''api.assemblyai.com'', str ''AssemblyAI (STT)''),
     (str ''api.groq.com'', str ''Groq (STT)''),
     (str ''api.elevenlabs.io'', str ''ElevenLabs (TTS)''),
     (str ''api.openai.com'', str ''OpenAI (LLM)''),
     (str ''api.anthropic.com'', str ''Anthropic (LLM)'')]"

definition add_line :: "pystr \<Rightarrow> pystr \<Rightarrow> pystr" where
  "add_line domain pin =
     str ''        .add('' @ DQ @ domain @ DQ @ str '', '' @ DQ @ pin @ DQ @ str '')''"

definition backup_line :: "pystr \<Rightarrow> pystr" where
  "backup_line domain =
     str ''        .add('' @ DQ @ domain @ DQ @ str '', '' @ DQ @ str ''sha256/BACKUP_PIN_HERE'' @ DQ
       @ str '') // Add backup pin''"

fun template_loop :: "dict \<Rightarrow> pystr list \<Rightarrow> world \<Rightarrow> (exn + unit) \<times> world" where
  "template_loop pins [] w = (Inr (), w)"
| "template_loop pins (domain # rest) w =
     (let comment = dict_get provider_comments domain domain
      in case dict_getitem pins domain of
           None \<Rightarrow> (Inl (KeyError domain), w)
         | Some pin \<Rightarrow>
             template_loop pins rest
               (print []
                 (print (backup_line domain)
                   (print (add_line domain pin)
                     (print (str ''        // '' @ comment) w)))))"

definition template_phase :: "dict \<Rightarrow> world \<Rightarrow> (exn + unit) \<times> world" where
  "template_phase pins w =
     (let w1 = prints
            [rule50, str ''Kotlin Code for CertificatePinning.kt'', rule50, [],
             str ''// Update app/src/main/kotlin/com/unamentis/data/remote/CertificatePinning.kt'',
             str ''// Replace the placeholder pins with these actual pins:'',
             [],
             str ''val pinner: CertificatePinner by lazy {'',
             str ''    CertificatePinner.Builder()''] w
      in case template_loop pins (dict_keys pins) w1 of
           (Inl e, w2) \<Rightarrow> (Inl e, w2)
         | (Inr u, w2) \<Rightarrow> (Inr (), prints [str ''        .build()'', str ''}'', []] w2))"

definition notes_phase :: "world \<Rightarrow> world" where
  "notes_phase w =
     prints
       [rule50, str ''Important Notes'', rule50, [],
        str ''1. ALWAYS add at least 2 pins per domain (current + backup)'',
        str ''2. Get backup pins from provider documentation or cert transparency logs'',
        str ''3. Monitor certificate expiration dates'',
        str ''4. Set up alerts for certificate rotation'',
        str ''5. Update pins BEFORE old certificates expire'',
        [],
        str ''Certificate Transparency Logs:'',
        str ''  - https://crt.sh'',
        str ''  - https://transparencyreport.google.com/https/certificates'',
        [],
        rule50, str ''Done!'', rule50] w"

text \<open>
  The last step: \<open>sys.exit(1)\<close> when the list of failed domains is not empty;
  otherwise \<open>main\<close> returns and the process ends with exit code 0.
\<close>

definition failures :: "dict \<Rightarrow> pystr list" where
  "failures pins = map fst (filter (\<lambda>(d, p). p = FAILED_TO_EXTRACT) pins)"

definition exit_phase :: "dict \<Rightarrow> world \<Rightarrow> int \<times> world" where
  "exit_phase pins w =
     (if failures pins \<noteq> [] then
        (1, print (str ''Please check your network connection and try again.'')
              (print []
                (prints (map (\<lambda>domain. str ''  - '' @ domain) (failures pins))
                  (print (RED @ str ''WARNING: Failed to extract pins for:'' @ NC)
                    (print [] w)))))
      else (0, w))"

definition initial_world :: world where
  "initial_world = \<lparr>printed = [], invoked = []\<rparr>"

text \<open>
  A run of the script: the exit code of the process (or the exception that ended
  \<open>main\<close>) together with everything printed and every command invoked.
\<close>

definition main :: "shell \<Rightarrow> (exn + int) \<times> world" where
  "main sh =
     (case extraction_phase sh PROVIDERS [] (banner initial_world) of
        (Inl e, w1) \<Rightarrow> (Inl (Propagated e), w1)
      | (Inr pins, w1) \<Rightarrow>
          (case template_phase pins (summary_phase pins w1) of
             (Inl e, w2) \<Rightarrow> (Inl e, w2)
           | (Inr u, w2) \<Rightarrow>
               (case exit_phase pins (notes_phase w2) of (code, w3) \<Rightarrow> (Inr code, w3))))"

subsection \<open>Standard output with an encoding\<close>







subsection \<open>Notions used to state the properties\<close>

text \<open>
  What \<open>extract_pin\<close> returns for a domain and what it prints, taken from a call in the
  initial world (neither depends on the world of the call, see \<open>extract_pin_frame\<close>),
  and the value the loop of \<open>main\<close> stores for the returned value.
\<close>

definition returned :: "shell \<Rightarrow> pystr \<Rightarrow> run_exn + pystr option" where
  "returned sh domain = fst (extract_pin sh domain initial_world)"

definition reported :: "shell \<Rightarrow> pystr \<Rightarrow> pystr list" where
  "reported sh domain = printed (snd (extract_pin sh domain initial_world))"

definition recorded :: "shell \<Rightarrow> pystr \<Rightarrow> pystr" where
  "recorded sh domain =
     (case returned sh domain of
        Inr (Some p) \<Rightarrow> if p \<noteq> [] then p else FAILED_TO_EXTRACT
      | _ \<Rightarrow> FAILED_TO_EXTRACT)"

text \<open>
  The text of the template phase as the specification describes it, for a given choice
  of the pin shown for each domain: the fixed preamble; then for each provider, in the
  order of the list, a comment line with its label, one \<open>.add\<close> line with the domain
  and the pin shown for it, one \<open>.add\<close> line with the backup placeholder, and an empty
  line; then the closing lines.
\<close>

definition template_text :: "(pystr \<Rightarrow> pystr) \<Rightarrow> pystr list" where
  "template_text shown =
     [rule50, str ''Kotlin Code for CertificatePinning.kt'', rule50, [],
      str ''// Update app/src/main/kotlin/com/unamentis/data/remote/CertificatePinning.kt'',
      str ''// Replace the placeholder pins with these actual pins:'',
      [],
      str ''val pinner: CertificatePinner by lazy {'',
      str ''    CertificatePinner.Builder()'']
     @ concat (map (\<lambda>(domain, provider_name).
         [str ''        // '' @ provider_name, add_line domain (shown domain),
          backup_line domain, []]) PROVIDERS)
     @ [str ''        .build()'', str ''}'', []]"

text \<open>The extraction pass as \<open>main\<close> starts it: all providers, an empty mapping.\<close>

definition run_extraction :: "shell \<Rightarrow> (run_exn + dict) \<times> world" where
  "run_extraction sh = extraction_phase sh PROVIDERS [] (banner initial_world)"

text \<open>
  The text \<open>openssl enc -base64\<close> writes for a digest, before its final newline:
  a non-empty string over the base64 alphabet.
\<close>

definition base64_char :: "nat \<Rightarrow> bool" where
  "base64_char c \<longleftrightarrow>
     (0x41 \<le> c \<and> c \<le> 0x5A) \<or> (0x61 \<le> c \<and> c \<le> 0x7A) \<or> (0x30 \<le> c \<and> c \<le> 0x39) \<or>
     c = 0x2B \<or> c = 0x2F \<or> c = 0x3D"

definition base64_text :: "pystr \<Rightarrow> bool" where
  "base64_text b \<longleftrightarrow> b \<noteq> [] \<and> list_all base64_char b"

text \<open>
  Mocked tool chains: one that always exits with status 0 and the given output, one
  that always exits with a given status and output, and one that exceeds the timeout
  for one domain and behaves as another tool chain elsewhere.
\<close>

definition tool_prints :: "pystr \<Rightarrow> shell" where
  "tool_prints out cmd = Inr \<lparr>returncode = 0, stdout = out\<rparr>"

definition tool_exits :: "int \<Rightarrow> pystr \<Rightarrow> shell" where
  "tool_exits status out cmd = Inr \<lparr>returncode = status, stdout = out\<rparr>"

definition timeout_for :: "pystr \<Rightarrow> shell \<Rightarrow> shell" where
  "timeout_for domain sh cmd = (if cmd = pin_command domain then Inl TimeoutExpired else sh cmd)"

text \<open>
  A sample of what the tool chain prints before the newline: the base64 text of a
  SHA-256 digest.
\<close>

definition digest_text :: pystr where
  "digest_text = str ''47DEQpj8HBSa+/TImW+5JCeuQeRkm5NMpJWZG3hSuFU=''"

section \<open>Auxiliary lemmas\<close>

subsection \<open>Stripping whitespace\<close>

lemma rstrip_eq_Nil_iff: "rstrip s = [] \<longleftrightarrow> (\<forall>c\<in>set s. py_isspace c)"
  by (simp add: rstrip_def dropWhile_eq_Nil_conv)

lemma set_rstrip_subset: "set (rstrip s) \<subseteq> set s"
  unfolding rstrip_def using set_dropWhileD[of _ py_isspace "rev s"] by auto

lemma rstrip_decomp: "\<exists>r. s = rstrip s @ r \<and> (\<forall>c\<in>set r. py_isspace c)"
proof -
  have "rev s = takeWhile py_isspace (rev s) @ dropWhile py_isspace (rev s)" by simp
  then have "s = rev (dropWhile py_isspace (rev s)) @ rev (takeWhile py_isspace (rev s))"
    by (metis rev_append rev_rev_ident)
  moreover have "\<forall>c\<in>set (rev (takeWhile py_isspace (rev s))). py_isspace c"
    using set_takeWhileD[of _ py_isspace "rev s"] by auto
  ultimately show ?thesis unfolding rstrip_def by blast
qed

lemma lstrip_decomp: "\<exists>l. s = l @ lstrip s \<and> (\<forall>c\<in>set l. py_isspace c)"
proof -
  have "s = takeWhile py_isspace s @ dropWhile py_isspace s" by simp
  moreover have "\<forall>c\<in>set (takeWhile py_isspace s). py_isspace c"
    using set_takeWhileD[of _ py_isspace s] by auto
  ultimately show ?thesis unfolding lstrip_def by blast
qed

lemma strip_decomp:
  "\<exists>l r. s = l @ strip s @ r \<and> (\<forall>c\<in>set l. py_isspace c) \<and> (\<forall>c\<in>set r. py_isspace c)"
proof -
  obtain r where r: "s = rstrip s @ r" "\<forall>c\<in>set r. py_isspace c"
    using rstrip_decomp by blast
  obtain l where l: "rstrip s = l @ lstrip (rstrip s)" "\<forall>c\<in>set l. py_isspace c"
    using lstrip_decomp by blast
  have "s = (l @ lstrip (rstrip s)) @ r" using r(1) l(1) by metis
  then have "s = l @ strip s @ r" by (simp add: strip_def)
  then show ?thesis using r(2) l(2) by blast
qed

lemma strip_eq_Nil_iff: "strip s = [] \<longleftrightarrow> (\<forall>c\<in>set s. py_isspace c)"
proof
  assume "strip s = []"
  then show "\<forall>c\<in>set s. py_isspace c"
    using strip_decomp[of s] by auto
next
  assume a: "\<forall>c\<in>set s. py_isspace c"
  then have "rstrip s = []" by (simp add: rstrip_eq_Nil_iff)
  then show "strip s = []" by (simp add: strip_def lstrip_def)
qed

lemma rstrip_last: "rstrip s \<noteq> [] \<Longrightarrow> \<not> py_isspace (last (rstrip s))"
  unfolding rstrip_def
  by (metis hd_dropWhile last_rev rev_is_Nil_conv rev_rev_ident)

lemma lstrip_hd: "lstrip s \<noteq> [] \<Longrightarrow> \<not> py_isspace (hd (lstrip s))"
  unfolding lstrip_def by (rule hd_dropWhile)

lemma lstrip_last: "lstrip s \<noteq> [] \<Longrightarrow> last (lstrip s) = last s"
  unfolding lstrip_def
  by (metis append_Nil2 last_appendR takeWhile_dropWhile_id)

lemma strip_ends:
  assumes "strip s \<noteq> []"
  shows "\<not> py_isspace (hd (strip s))" and "\<not> py_isspace (last (strip s))"
proof -
  show "\<not> py_isspace (hd (strip s))" using assms lstrip_hd by (simp add: strip_def)
  have "rstrip s \<noteq> []" using assms by (auto simp: strip_def lstrip_def)
  then have "\<not> py_isspace (last (rstrip s))" by (rule rstrip_last)
  then show "\<not> py_isspace (last (strip s))"
    using assms lstrip_last[of "rstrip s"] by (simp add: strip_def)
qed

lemma strip_ident:
  assumes "s \<noteq> []" "\<not> py_isspace (hd s)" "\<not> py_isspace (last s)"
  shows "strip s = s"
proof -
  have "dropWhile py_isspace (rev s) = rev s"
    using assms by (cases "rev s") (auto simp: last_rev[symmetric] hd_rev)
  then have "rstrip s = s" by (simp add: rstrip_def)
  moreover have "lstrip s = s" using assms by (cases s) (auto simp: lstrip_def)
  ultimately show ?thesis by (simp add: strip_def)
qed

lemma strip_append_ws:
  assumes "b \<noteq> []" "\<not> py_isspace (hd b)" "\<not> py_isspace (last b)" "\<forall>c\<in>set r. py_isspace c" "\<forall>c\<in>set l. py_isspace c"
  shows "strip (l @ b @ r) = b"
proof -
  have "dropWhile py_isspace (rev r @ rev b @ rev l) = rev b @ rev l"
    using assms by (cases "rev b") (auto simp: dropWhile_append hd_rev  dest: arg_cong[where f=hd])
  then have "rstrip (l @ b @ r) = l @ b" by (simp add: rstrip_def)
  moreover have "lstrip (l @ b) = b" using assms by (cases b) (auto simp: lstrip_def dropWhile_append)
  ultimately show ?thesis by (simp add: strip_def)
qed

subsection \<open>Printing, the extractor and the extraction loop\<close>

lemma printed_print [simp]: "printed (print s w) = printed w @ [s]"
  and invoked_print [simp]: "invoked (print s w) = invoked w"
  by (simp_all add: print_def)

lemma printed_prints [simp]: "printed (prints ls w) = printed w @ ls"
  unfolding prints_def by (induction ls arbitrary: w) simp_all

lemma invoked_prints [simp]: "invoked (prints ls w) = invoked w"
  unfolding prints_def by (induction ls arbitrary: w) simp_all

lemma prints_eq: "prints ls w = w\<lparr>printed := printed w @ ls\<rparr>"
  unfolding prints_def by (induction ls arbitrary: w) (simp_all add: print_def)

lemma extract_pin_frame:
  "extract_pin sh domain w =
     (returned sh domain,
      w\<lparr>printed := printed w @ reported sh domain, invoked := invoked w @ [pin_command domain]\<rparr>)"
  by (simp add: extract_pin_def returned_def reported_def subprocess_run_def initial_world_def
      print_def split: sum.splits run_exn.splits)

lemma returned_eq:
  "returned sh domain =
     (case sh (pin_command domain) of
        Inr result \<Rightarrow>
          if returncode result = 0 \<and> strip (stdout result) \<noteq> []
          then Inr (Some (str ''sha256/'' @ strip (stdout result))) else Inr None
      | Inl e \<Rightarrow> Inr None)"
  by (simp add: extract_pin_def returned_def subprocess_run_def split: sum.splits run_exn.splits)

lemma reported_eq:
  "reported sh domain =
     (case sh (pin_command domain) of
        Inr result \<Rightarrow> []
      | Inl TimeoutExpired \<Rightarrow>
          [RED @ str ''  '' @ CROSS @ str '' Timeout connecting to '' @ domain @ NC]
      | Inl (OtherException e) \<Rightarrow> [RED @ str ''  '' @ CROSS @ str '' Error: '' @ e @ NC])"
  by (simp add: extract_pin_def reported_def subprocess_run_def initial_world_def
      split: sum.splits run_exn.splits)

lemma returned_Inr: "\<exists>r. returned sh domain = Inr r"
  by (simp add: returned_eq split: sum.splits)

lemma returned_Some_nonempty: "returned sh domain = Inr (Some p) \<Longrightarrow> p \<noteq> []"
  by (auto simp: returned_eq str_def split: sum.splits if_splits)

lemma recorded_Some: "returned sh domain = Inr (Some p) \<Longrightarrow> recorded sh domain = p"
  using returned_Some_nonempty[of sh domain p] by (simp add: recorded_def)

lemma recorded_None: "returned sh domain = Inr None \<Longrightarrow> recorded sh domain = FAILED_TO_EXTRACT"
  by (simp add: recorded_def)


lemma extraction_phase_step:
  "extraction_phase sh ((domain, provider_name) # rest) pins w =
     extraction_phase sh rest (dict_setitem pins domain (recorded sh domain))
       (print []
         (print (if returned sh domain = Inr None
                 then RED @ str ''  '' @ CROSS @ str '' Failed to extract pin'' @ NC
                 else GREEN @ str ''  '' @ CHECK @ str '' Pin: '' @ recorded sh domain @ NC)
           (prints (reported sh domain)
             (snd (subprocess_run sh (pin_command domain)
               (print (YELLOW @ str ''Extracting pin for '' @ provider_name @ str '' ('' @ domain
                        @ str '')...'' @ NC) w))))))"
proof -
  obtain r where r: "returned sh domain = Inr r" using returned_Inr by blast
  show ?thesis
  proof (cases r)
    case None
    then show ?thesis using r
      by (simp add: extract_pin_frame recorded_None Let_def print_def prints_eq subprocess_run_def)
  next
    case (Some p)
    then have "p \<noteq> []" using r returned_Some_nonempty by blast
    then show ?thesis using r Some
      by (simp add: extract_pin_frame recorded_Some Let_def print_def prints_eq subprocess_run_def)
  qed
qed


lemma fst_extraction_phase:
  "fst (extraction_phase sh ps pins w) =
     Inr (fold (\<lambda>(domain, provider_name) acc. dict_setitem acc domain (recorded sh domain)) ps pins)"
proof (induction ps arbitrary: pins w)
  case Nil
  show ?case by simp
next
  case (Cons a ps)
  obtain domain provider_name where a: "a = (domain, provider_name)" by (cases a)
  show ?case unfolding a extraction_phase_step by (simp add: Cons.IH)
qed

lemma invoked_extraction_phase:
  "invoked (snd (extraction_phase sh ps pins w)) =
     invoked w @ map (\<lambda>(domain, provider_name). pin_command domain) ps"
proof (induction ps arbitrary: pins w)
  case Nil
  show ?case by simp
next
  case (Cons a ps)
  obtain domain provider_name where a: "a = (domain, provider_name)" by (cases a)
  show ?case unfolding a extraction_phase_step by (simp add: Cons.IH subprocess_run_def)
qed

lemma dict_setitem_fresh: "k \<notin> fst ` set d \<Longrightarrow> dict_setitem d k v = d @ [(k, v)]"
  by (induction d) auto

lemma fold_setitem_fresh:
  assumes "distinct (map fst ps)" "set (map fst ps) \<inter> set (map fst pins) = {}"
  shows "fold (\<lambda>(domain, provider_name) acc. dict_setitem acc domain (f domain)) ps pins =
         pins @ map (\<lambda>(domain, provider_name). (domain, f domain)) ps"
  using assms
proof (induction ps arbitrary: pins)
  case Nil
  show ?case by simp
next
  case (Cons a ps)
  obtain domain provider_name where a: "a = (domain, provider_name)" by (cases a)
  have fresh: "domain \<notin> fst ` set pins" using Cons.prems a by auto
  have "set (map fst ps) \<inter> set (map fst (pins @ [(domain, f domain)])) = {}"
    using Cons.prems a by auto
  moreover have "distinct (map fst ps)" using Cons.prems by simp
  ultimately show ?case using Cons.IH[of "pins @ [(domain, f domain)]"] fresh a
    by (simp add: dict_setitem_fresh)
qed

lemma distinct_PROVIDERS: "distinct (map fst PROVIDERS)"
  by (simp add: PROVIDERS_def str_def)

lemma extraction_PROVIDERS:
  "fst (extraction_phase sh PROVIDERS [] w) =
     Inr (map (\<lambda>(domain, provider_name). (domain, recorded sh domain)) PROVIDERS)"
  using fold_setitem_fresh[OF distinct_PROVIDERS, of "[]" "recorded sh"]
  by (simp add: fst_extraction_phase)

lemma fst_extract_pin: "fst (extract_pin sh domain w) = returned sh domain"
  by (simp add: extract_pin_frame)

lemma printed_extract_pin: "printed (snd (extract_pin sh domain w)) = printed w @ reported sh domain"
  by (simp add: extract_pin_frame)

lemma base64_char_not_space: "base64_char c \<Longrightarrow> \<not> py_isspace c"
  by (auto simp: base64_char_def py_isspace_def)

lemma strip_base64_newline:
  assumes "base64_text b"
  shows "strip (b @ [10]) = b"
proof -
  have ne: "b \<noteq> []" and all: "\<forall>c\<in>set b. base64_char c"
    using assms by (simp_all add: base64_text_def list_all_iff)
  have "\<not> py_isspace (hd b)" "\<not> py_isspace (last b)"
    using ne all base64_char_not_space by simp_all
  moreover have "\<forall>c\<in>set [10::nat]. py_isspace c" by (simp add: py_isspace_def)
  ultimately show ?thesis using strip_append_ws[of b "[10]" "[]"] ne by simp
qed

lemma strip_digest_text: "strip (digest_text @ [10]) = digest_text"
  by (rule strip_base64_newline) (simp add: base64_text_def base64_char_def digest_text_def str_def)


subsection \<open>The phases of main\<close>

lemma map_of_recorded:
  "(domain, provider_name) \<in> set ps \<Longrightarrow>
     map_of (map (\<lambda>(domain, provider_name). (domain, f domain)) ps) domain = Some (f domain)"
  by (induction ps) auto

lemma run_extraction_fst:
  "fst (run_extraction sh) = Inr (map (\<lambda>(domain, provider_name). (domain, recorded sh domain)) PROVIDERS)"
  by (simp add: run_extraction_def extraction_PROVIDERS)

lemma run_extraction_invoked:
  "invoked (snd (run_extraction sh)) = map (\<lambda>(domain, provider_name). pin_command domain) PROVIDERS"
  by (simp add: run_extraction_def invoked_extraction_phase banner_def initial_world_def)

lemma template_loop_eq:
  assumes "set ks \<subseteq> fst ` set ps"
  shows "template_loop (map (\<lambda>(domain, provider_name). (domain, f domain)) ps) ks w =
     (Inr (), w\<lparr>printed := printed w @ concat (map (\<lambda>domain.
        [str ''        // '' @ dict_get provider_comments domain domain,
         add_line domain (f domain), backup_line domain, []]) ks)\<rparr>)"
  using assms
proof (induction ks arbitrary: w)
  case Nil
  show ?case by simp
next
  case (Cons k ks)
  then obtain n where "(k, n) \<in> set ps" by auto
  then have "dict_getitem (map (\<lambda>(domain, provider_name). (domain, f domain)) ps) k = Some (f k)"
    by (simp add: dict_getitem_def map_of_recorded)
  moreover have "set ks \<subseteq> fst ` set ps" using Cons.prems by simp
  ultimately show ?case using Cons.IH by (simp add: print_def)
qed

lemma provider_comments_eq: "provider_comments = PROVIDERS"
  by (simp add: provider_comments_def PROVIDERS_def)

lemma dict_get_provider_comments:
  "(domain, provider_name) \<in> set PROVIDERS \<Longrightarrow> dict_get provider_comments domain domain = provider_name"
  using distinct_PROVIDERS by (simp add: dict_get_def provider_comments_eq)

lemma template_lines_PROVIDERS:
  "map (\<lambda>domain. [str ''        // '' @ dict_get provider_comments domain domain,
         add_line domain (f domain), backup_line domain, []]) (map fst PROVIDERS) =
   map (\<lambda>(domain, provider_name). [str ''        // '' @ provider_name,
         add_line domain (f domain), backup_line domain, []]) PROVIDERS"
  by (auto simp: dict_get_provider_comments)


lemma template_phase_eq:
  "template_phase (map (\<lambda>(domain, provider_name). (domain, f domain)) PROVIDERS) w =
     (Inr (), w\<lparr>printed := printed w @
        [rule50, str ''Kotlin Code for CertificatePinning.kt'', rule50, [],
         str ''// Update app/src/main/kotlin/com/unamentis/data/remote/CertificatePinning.kt'',
         str ''// Replace the placeholder pins with these actual pins:'',
         [],
         str ''val pinner: CertificatePinner by lazy {'',
         str ''    CertificatePinner.Builder()'']
        @ concat (map (\<lambda>(domain, provider_name).
            [str ''        // '' @ provider_name, add_line domain (f domain),
             backup_line domain, []]) PROVIDERS)
        @ [str ''        .build()'', str ''}'', []]\<rparr>)"
proof -
  let ?pins = "map (\<lambda>(domain, provider_name). (domain, f domain)) PROVIDERS"
  have keys: "dict_keys ?pins = map fst PROVIDERS"
    by (simp add: dict_keys_def case_prod_unfold comp_def)
  have sub: "set (map fst PROVIDERS) \<subseteq> fst ` set PROVIDERS" by simp
  show ?thesis
    unfolding template_phase_def keys Let_def template_loop_eq[OF sub] template_lines_PROVIDERS
    by (simp add: prints_eq)
qed

lemma main_eq:
  "main sh =
     (let pins = map (\<lambda>(domain, provider_name). (domain, recorded sh domain)) PROVIDERS;
          w1 = snd (run_extraction sh);
          w2 = snd (template_phase pins (summary_phase pins w1))
      in (Inr (fst (exit_phase pins (notes_phase w2))), snd (exit_phase pins (notes_phase w2))))"
proof -
  let ?pins = "map (\<lambda>(domain, provider_name). (domain, recorded sh domain)) PROVIDERS"
  have r: "run_extraction sh = (Inr ?pins, snd (run_extraction sh))"
    using run_extraction_fst[of sh] by (metis prod.collapse)
  have m: "main sh =
     (case run_extraction sh of
        (Inl e, w1) \<Rightarrow> (Inl (Propagated e), w1)
      | (Inr pins, w1) \<Rightarrow>
          (case template_phase pins (summary_phase pins w1) of
             (Inl e, w2) \<Rightarrow> (Inl e, w2)
           | (Inr u, w2) \<Rightarrow>
               (case exit_phase pins (notes_phase w2) of (code, w3) \<Rightarrow> (Inr code, w3))))"
    by (simp add: main_def run_extraction_def)
  obtain w2 where t: "template_phase ?pins (summary_phase ?pins (snd (run_extraction sh))) = (Inr (), w2)"
    using template_phase_eq by blast
  show ?thesis
    by (subst m, subst r) (simp add: t Let_def split: prod.splits)
qed

lemma failures_recorded:
  "failures (map (\<lambda>(domain, provider_name). (domain, f domain)) ps) =
     filter (\<lambda>domain. f domain = FAILED_TO_EXTRACT) (map fst ps)"
  by (induction ps) (auto simp: failures_def)

lemma sha256_not_sentinel: "str ''sha256/'' @ p \<noteq> FAILED_TO_EXTRACT"
  by (simp add: FAILED_TO_EXTRACT_def str_def)

lemma recorded_cases:
  "(returned sh domain = Inr None \<and> recorded sh domain = FAILED_TO_EXTRACT) \<or>
   (\<exists>p. returned sh domain = Inr (Some (str ''sha256/'' @ p)) \<and> p \<noteq> []
        \<and> recorded sh domain = str ''sha256/'' @ p)"
proof (cases "sh (pin_command domain)")
  case (Inl e)
  then have "returned sh domain = Inr None" by (simp add: returned_eq)
  then show ?thesis by (simp add: recorded_None)
next
  case (Inr result)
  show ?thesis
  proof (cases "returncode result = 0 \<and> strip (stdout result) \<noteq> []")
    case True
    then have "returned sh domain = Inr (Some (str ''sha256/'' @ strip (stdout result)))"
      using Inr by (simp add: returned_eq)
    then show ?thesis using True recorded_Some by blast
  next
    case False
    then have "returned sh domain = Inr None" using Inr by (auto simp: returned_eq)
    then show ?thesis by (simp add: recorded_None)
  qed
qed

lemma recorded_sentinel_iff: "recorded sh domain = FAILED_TO_EXTRACT \<longleftrightarrow> returned sh domain = Inr None"
  using recorded_cases[of sh domain] sha256_not_sentinel by (metis option.distinct(1) sum.inject(2))

lemma pin_command_inj: "pin_command d = pin_command d' \<longleftrightarrow> d = d'"
proof
  assume eq: "pin_command d = pin_command d'"
  then have "length (pin_command d) = length (pin_command d')" by simp
  then have len: "length d = length d'" by (simp add: pin_command_def)
  from eq show "d = d'" using len by (simp add: pin_command_def)
qed simp

lemma distinct_commands: "distinct (map (\<lambda>(domain, provider_name). pin_command domain) PROVIDERS)"
proof -
  have eq: "(\<lambda>(domain, provider_name). pin_command domain) = pin_command \<circ> (fst :: pystr \<times> pystr \<Rightarrow> pystr)"
    by (auto simp: fun_eq_iff)
  have "distinct (map pin_command (map fst PROVIDERS))"
    using distinct_PROVIDERS unfolding distinct_map by (simp add: inj_on_def pin_command_inj)
  then show ?thesis by (simp add: eq)
qed

lemma extraction_phase_distinct:
  assumes "distinct (map fst ps)"
  shows "fst (extraction_phase sh ps [] w) =
     Inr (map (\<lambda>(domain, provider_name). (domain, recorded sh domain)) ps)"
  using fold_setitem_fresh[OF assms, of "[]" "recorded sh"]
  by (simp add: fst_extraction_phase)

lemma getitem_results:
  "(domain, provider_name) \<in> set ps \<Longrightarrow>
     dict_getitem (map (\<lambda>(domain, provider_name). (domain, f domain)) ps) domain = Some (f domain)"
  by (simp add: dict_getitem_def map_of_recorded)

lemma returned_cong:
  "sh1 (pin_command domain) = sh2 (pin_command domain) \<Longrightarrow> returned sh1 domain = returned sh2 domain"
  by (simp add: returned_eq)

lemma reported_cong:
  "sh1 (pin_command domain) = sh2 (pin_command domain) \<Longrightarrow> reported sh1 domain = reported sh2 domain"
  by (simp add: reported_eq)

lemma recorded_cong:
  "sh1 (pin_command domain) = sh2 (pin_command domain) \<Longrightarrow> recorded sh1 domain = recorded sh2 domain"
  using returned_cong[of sh1 domain sh2] by (simp add: recorded_def)

lemma extraction_phase_cong:
  assumes "\<forall>(domain, provider_name) \<in> set ps. sh1 (pin_command domain) = sh2 (pin_command domain)"
  shows "extraction_phase sh1 ps pins w = extraction_phase sh2 ps pins w"
  using assms
proof (induction ps arbitrary: pins w)
  case Nil
  show ?case by simp
next
  case (Cons a ps)
  obtain domain provider_name where a: "a = (domain, provider_name)" by (cases a)
  have h: "sh1 (pin_command domain) = sh2 (pin_command domain)" using Cons.prems a by simp
  have rest: "\<forall>(domain, provider_name) \<in> set ps. sh1 (pin_command domain) = sh2 (pin_command domain)"
    using Cons.prems by simp
  have r: "returned sh1 domain = returned sh2 domain" using h by (rule returned_cong)
  have p: "reported sh1 domain = reported sh2 domain" using h by (rule reported_cong)
  have c: "recorded sh1 domain = recorded sh2 domain" using h by (rule recorded_cong)
  show ?case
    unfolding a extraction_phase_step r p c
    by (simp only: subprocess_run_def snd_conv Cons.IH[OF rest])
qed

lemma recorded_sha256:
  "recorded sh domain \<noteq> FAILED_TO_EXTRACT \<Longrightarrow>
     prefix (str ''sha256/'') (recorded sh domain) \<and> returned sh domain = Inr (Some (recorded sh domain))"
  using recorded_cases[of sh domain] by auto

lemma returned_Some_sha256:
  assumes "returned sh domain = Inr (Some pin)"
  shows "prefix (str ''sha256/'') pin \<and> pin \<noteq> FAILED_TO_EXTRACT"
proof -
  obtain p where "returned sh domain = Inr (Some (str ''sha256/'' @ p))"
    using recorded_cases[of sh domain] assms by auto
  then have "pin = str ''sha256/'' @ p" using assms by simp
  then show ?thesis using sha256_not_sentinel by simp
qed

lemma invoked_summary_loop: "invoked (summary_loop items w) = invoked w"
  by (induction items arbitrary: w) (auto simp: Let_def)

lemma invoked_summary_phase: "invoked (summary_phase pins w) = invoked w"
  by (simp add: summary_phase_def invoked_summary_loop)

lemma invoked_template_phase:
  "invoked (snd (template_phase (map (\<lambda>(domain, provider_name). (domain, f domain)) PROVIDERS) w))
     = invoked w"
  by (simp add: template_phase_eq)

lemma invoked_notes_phase: "invoked (notes_phase w) = invoked w"
  by (simp add: notes_phase_def)

lemma invoked_exit_phase: "invoked (snd (exit_phase pins w)) = invoked w"
  by (simp add: exit_phase_def)

lemma invoked_main:
  "invoked (snd (main sh)) = map (\<lambda>(domain, provider_name). pin_command domain) PROVIDERS"
  unfolding main_eq Let_def snd_conv invoked_exit_phase invoked_notes_phase invoked_template_phase
    invoked_summary_phase
  by (rule run_extraction_invoked)

lemma groq_provider: "(str ''api.groq.com'', str ''Groq (STT)'') \<in> set PROVIDERS"
  by (simp add: PROVIDERS_def)

lemma openai_provider: "(str ''api.openai.com'', str ''OpenAI (LLM)'') \<in> set PROVIDERS"
  by (simp add: PROVIDERS_def)

lemma timeout_for_other:
  "d \<noteq> domain \<Longrightarrow> timeout_for domain sh (pin_command d) = sh (pin_command d)"
  by (simp add: timeout_for_def pin_command_inj)

lemma timeout_for_same: "timeout_for domain sh (pin_command domain) = Inl TimeoutExpired"
  by (simp add: timeout_for_def)

lemma openai_not_groq: "str ''api.openai.com'' \<noteq> str ''api.groq.com''"
  by (simp add: str_def)

lemma returned_tool_prints_digest:
  "returned (tool_prints (digest_text @ [10])) domain = Inr (Some (str ''sha256/'' @ digest_text))"
  by (simp add: returned_eq tool_prints_def strip_digest_text) (simp add: digest_text_def str_def)

lemma printed_notes_phase:
  "\<exists>before. printed (notes_phase w) = printed w @ before @ [rule50, str ''Done!'', rule50]"
proof -
  have "printed (notes_phase w) = printed w @
       [rule50, str ''Important Notes'', rule50, [],
        str ''1. ALWAYS add at least 2 pins per domain (current + backup)'',
        str ''2. Get backup pins from provider documentation or cert transparency logs'',
        str ''3. Monitor certificate expiration dates'',
        str ''4. Set up alerts for certificate rotation'',
        str ''5. Update pins BEFORE old certificates expire'',
        [],
        str ''Certificate Transparency Logs:'',
        str ''  - https://crt.sh'',
        str ''  - https://transparencyreport.google.com/https/certificates'',
        []] @ [rule50, str ''Done!'', rule50]"
    by (simp add: notes_phase_def)
  then show ?thesis by blast
qed

lemma fst_exit_phase: "fst (exit_phase pins w) = (if failures pins \<noteq> [] then 1 else 0)"
  by (simp add: exit_phase_def)

lemma printed_exit_phase:
  "printed (snd (exit_phase pins w)) = printed w @
     (if failures pins \<noteq> [] then
        [[], RED @ str ''WARNING: Failed to extract pins for:'' @ NC]
        @ map (\<lambda>domain. str ''  - '' @ domain) (failures pins)
        @ [[], str ''Please check your network connection and try again.'']
      else [])"
  by (simp add: exit_phase_def)

lemma failures_results:
  "failures (map (\<lambda>(domain, provider_name). (domain, f domain)) PROVIDERS) =
     filter (\<lambda>domain. dict_getitem (map (\<lambda>(domain, provider_name). (domain, f domain)) PROVIDERS) domain
                 = Some FAILED_TO_EXTRACT)
       (dict_keys (map (\<lambda>(domain, provider_name). (domain, f domain)) PROVIDERS))"
proof -
  let ?pins = "map (\<lambda>(domain, provider_name). (domain, f domain)) PROVIDERS"
  have k: "dict_keys ?pins = map fst PROVIDERS"
    by (simp add: dict_keys_def case_prod_unfold comp_def)
  have "filter (\<lambda>domain. dict_getitem ?pins domain = Some FAILED_TO_EXTRACT) (map fst PROVIDERS)
      = filter (\<lambda>domain. f domain = FAILED_TO_EXTRACT) (map fst PROVIDERS)"
  proof (rule filter_cong[OF refl])
    fix domain assume "domain \<in> set (map fst PROVIDERS)"
    then obtain provider_name where "(domain, provider_name) \<in> set PROVIDERS" by auto
    then have "dict_getitem ?pins domain = Some (f domain)" by (rule getitem_results)
    then show "(dict_getitem ?pins domain = Some FAILED_TO_EXTRACT) = (f domain = FAILED_TO_EXTRACT)"
      by simp
  qed
  then show ?thesis unfolding k by (simp only: failures_recorded)
qed

lemma failures_Nil_iff:
  "failures (map (\<lambda>(domain, provider_name). (domain, recorded sh domain)) PROVIDERS) = [] \<longleftrightarrow>
     (\<forall>(domain, provider_name) \<in> set PROVIDERS. \<exists>pin. returned sh domain = Inr (Some pin))"
proof -
  have "failures (map (\<lambda>(domain, provider_name). (domain, recorded sh domain)) PROVIDERS) = [] \<longleftrightarrow>
      (\<forall>domain \<in> set (map fst PROVIDERS). recorded sh domain \<noteq> FAILED_TO_EXTRACT)"
    unfolding failures_recorded by (simp only: filter_empty_conv) 
  also have "\<dots> \<longleftrightarrow> (\<forall>(domain, provider_name) \<in> set PROVIDERS. recorded sh domain \<noteq> FAILED_TO_EXTRACT)"
    by auto
  also have "\<dots> \<longleftrightarrow> (\<forall>(domain, provider_name) \<in> set PROVIDERS. \<exists>pin. returned sh domain = Inr (Some pin))"
  proof -
    have "recorded sh domain \<noteq> FAILED_TO_EXTRACT \<longleftrightarrow> (\<exists>pin. returned sh domain = Inr (Some pin))"
      for domain
      using recorded_sentinel_iff[of sh domain] returned_Inr[of sh domain]
      by (metis option.exhaust option.distinct(1) sum.inject(2))
    then show ?thesis by simp
  qed
  finally show ?thesis .
qed

lemma failures_sentinel:
  "failures pins \<noteq> [] \<longleftrightarrow> FAILED_TO_EXTRACT \<in> snd ` set pins"
  unfolding failures_def by (induction pins) auto


lemma main_result:
  "main sh = (Inr (if failures (map (\<lambda>(domain, provider_name). (domain, recorded sh domain)) PROVIDERS) \<noteq> []
                   then 1 else 0), snd (main sh))"
  by (simp add: main_eq Let_def fst_exit_phase)

lemma printed_main_tail:
  "\<exists>before. printed (snd (main sh)) = before @ [rule50, str ''Done!'', rule50] @
     (if failures (map (\<lambda>(domain, provider_name). (domain, recorded sh domain)) PROVIDERS) \<noteq> [] then
        [[], RED @ str ''WARNING: Failed to extract pins for:'' @ NC]
        @ map (\<lambda>domain. str ''  - '' @ domain)
            (failures (map (\<lambda>(domain, provider_name). (domain, recorded sh domain)) PROVIDERS))
        @ [[], str ''Please check your network connection and try again.'']
      else [])"
proof -
  let ?pins = "map (\<lambda>(domain, provider_name). (domain, recorded sh domain)) PROVIDERS"
  let ?w2 = "snd (template_phase ?pins (summary_phase ?pins (snd (run_extraction sh))))"
  obtain b where b: "printed (notes_phase ?w2) = printed ?w2 @ b @ [rule50, str ''Done!'', rule50]"
    using printed_notes_phase by blast
  have "snd (main sh) = snd (exit_phase ?pins (notes_phase ?w2))"
    by (simp add: main_eq Let_def)
  then have "printed (snd (main sh)) = (printed ?w2 @ b) @ [rule50, str ''Done!'', rule50] @
     (if failures ?pins \<noteq> [] then
        [[], RED @ str ''WARNING: Failed to extract pins for:'' @ NC]
        @ map (\<lambda>domain. str ''  - '' @ domain) (failures ?pins)
        @ [[], str ''Please check your network connection and try again.'']
      else [])"
    by (simp only: printed_exit_phase b append_assoc)
  then show ?thesis by blast
qed

lemma template_phase_text:
  "template_phase (map (\<lambda>(domain, provider_name). (domain, f domain)) PROVIDERS) w =
     (Inr (), w\<lparr>printed := printed w @ template_text f\<rparr>)"
  by (simp only: template_phase_eq template_text_def)

lemma printed_main_template:
  "\<exists>before after. printed (snd (main sh)) = before @ template_text (recorded sh) @ after"
proof -
  let ?pins = "map (\<lambda>(domain, provider_name). (domain, recorded sh domain)) PROVIDERS"
  let ?w1 = "summary_phase ?pins (snd (run_extraction sh))"
  let ?w2 = "snd (template_phase ?pins ?w1)"
  have w2: "printed ?w2 = printed ?w1 @ template_text (recorded sh)"
    by (simp add: template_phase_text)
  obtain b where b: "printed (notes_phase ?w2) = printed ?w2 @ b @ [rule50, str ''Done!'', rule50]"
    using printed_notes_phase by blast
  have "snd (main sh) = snd (exit_phase ?pins (notes_phase ?w2))"
    by (simp add: main_eq Let_def)
  then have "printed (snd (main sh)) = printed (notes_phase ?w2) @
     (if failures ?pins \<noteq> [] then
        [[], RED @ str ''WARNING: Failed to extract pins for:'' @ NC]
        @ map (\<lambda>domain. str ''  - '' @ domain) (failures ?pins)
        @ [[], str ''Please check your network connection and try again.'']
      else [])"
    by (simp only: printed_exit_phase)
  then obtain a where "printed (snd (main sh)) = printed (notes_phase ?w2) @ a"
    by blast
  then have "printed (snd (main sh)) =
      printed ?w1 @ template_text (recorded sh) @ (b @ [rule50, str ''Done!'', rule50] @ a)"
    by (simp only: b w2 append_assoc)
  then show ?thesis by blast
qed

lemma count_concat_blocks:
  assumes "\<forall>x \<in> set ps. length (filter P (g x)) = n"
  shows "length (filter P (concat (map g ps))) = n * length ps"
  using assms by (induction ps) simp_all

lemma add_prefix_rule50: "\<not> prefix (str ''        .add('') rule50"
proof -
  have "rule50 = replicate (Suc 49) 61" by (simp add: rule50_def)
  then have r: "rule50 = 61 # replicate 49 61" by (simp only: replicate_Suc)
  show ?thesis unfolding r by (simp add: str_def)
qed

lemma add_prefix_add_line: "prefix (str ''        .add('') (add_line domain pin)"
  by (simp add: add_line_def)

lemma add_prefix_backup_line: "prefix (str ''        .add('') (backup_line domain)"
  by (simp add: backup_line_def)

lemma add_prefix_comment: "\<not> prefix (str ''        .add('') (str ''        // '' @ provider_name)"
  by (simp add: str_def)

lemma count_add_lines:
  "length (filter (prefix (str ''        .add('')) (template_text shown)) = 2 * length PROVIDERS"
proof -
  let ?P = "prefix (str ''        .add('')"
  let ?g = "\<lambda>(domain, provider_name).
         [str ''        // '' @ provider_name, add_line domain (shown domain),
          backup_line domain, []]"
  have blocks: "length (filter ?P (concat (map ?g PROVIDERS))) = 2 * length PROVIDERS"
  proof (rule count_concat_blocks)
    show "\<forall>x \<in> set PROVIDERS. length (filter ?P (?g x)) = 2"
      using add_prefix_add_line add_prefix_backup_line add_prefix_comment
      by (auto simp: str_def[of "''        .add(''"])
  qed
  have pre: "filter ?P
     [rule50, str ''Kotlin Code for CertificatePinning.kt'', rule50, [],
      str ''// Update app/src/main/kotlin/com/unamentis/data/remote/CertificatePinning.kt'',
      str ''// Replace the placeholder pins with these actual pins:'',
      [],
      str ''val pinner: CertificatePinner by lazy {'',
      str ''    CertificatePinner.Builder()''] = []"
    using add_prefix_rule50 by (simp add: str_def)
  have post: "filter ?P [str ''        .build()'', str ''}'', []] = []"
    by (simp add: str_def)
  show ?thesis
    unfolding template_text_def filter_append length_append pre post blocks by simp
qed

subsection \<open>Standard output with an encoding\<close>







lemma recorded_literal:
  "(case fst (extract_pin sh domain w0) of
      Inr (Some pin) \<Rightarrow> pin
    | _ \<Rightarrow> str ''FAILED_TO_EXTRACT'') = recorded sh domain"
proof -
  obtain r where r: "returned sh domain = Inr r" using returned_Inr by blast
  show ?thesis
  proof (cases r)
    case None
    then show ?thesis using r
      by (simp add: fst_extract_pin recorded_None) (simp add: FAILED_TO_EXTRACT_def)
  next
    case (Some p)
    then show ?thesis using r by (simp add: fst_extract_pin recorded_Some)
  qed
qed

lemma template_text_literal:
  "[replicate 50 61, str ''Kotlin Code for CertificatePinning.kt'', replicate 50 61, [],
    str ''// Update app/src/main/kotlin/com/unamentis/data/remote/CertificatePinning.kt'',
    str ''// Replace the placeholder pins with these actual pins:'',
    [],
    str ''val pinner: CertificatePinner by lazy {'',
    str ''    CertificatePinner.Builder()'']
   @ concat (map (\<lambda>(domain, provider_name).
       [str ''        // '' @ provider_name,
        str ''        .add('' @ [0x22] @ domain @ [0x22] @ str '', '' @ [0x22]
          @ (case fst (extract_pin sh domain w0) of
               Inr (Some pin) \<Rightarrow> pin
             | _ \<Rightarrow> str ''FAILED_TO_EXTRACT'')
          @ [0x22] @ str '')'',
        str ''        .add('' @ [0x22] @ domain @ [0x22] @ str '', '' @ [0x22]
          @ str ''sha256/BACKUP_PIN_HERE'' @ [0x22] @ str '') // Add backup pin'',
        []])
       [(str ''api.deepgram.com'', str ''Deepgram (STT + TTS)''),
        (str ''api.assemblyai.com'', str ''AssemblyAI (STT)''),
        (str ''api.groq.com'', str ''Groq (STT)''),
        (str ''api.elevenlabs.io'', str ''ElevenLabs (TTS)''),
        (str ''api.openai.com'', str ''OpenAI (LLM)''),
        (str ''api.anthropic.com'', str ''Anthropic (LLM)'')])
   @ [str ''        .build()'', str ''}'', []]
   = template_text (recorded sh)"
  unfolding recorded_literal
  by (simp add: template_text_def PROVIDERS_def add_line_def backup_line_def DQ_def rule50_def)

section \<open>Properties of extract_pin\<close>

text \<open>
  C1, as amended. For every domain, when the tool invocation exits with status 0 and its
  output is not blank, that is not empty once leading and trailing whitespace is
  stripped, \<open>extract_pin\<close> returns \<open>sha256/\<close> followed by the output without that
  whitespace. That is the whole output when it neither starts nor ends with
  whitespace; and when the tool prints the base64 text of the digest followed by a
  newline, as the mocked tool chain with a known key does, the pin is \<open>sha256/\<close>
  followed by that base64 text.
\<close>

theorem extract_pin_success:
  assumes "sh (pin_command domain) = Inr result" and "returncode result = 0"
    and "strip (stdout result) \<noteq> []"
  shows "fst (extract_pin sh domain w) = Inr (Some (str ''sha256/'' @ strip (stdout result)))
       \<and> (\<not> py_isspace (hd (stdout result)) \<and> \<not> py_isspace (last (stdout result)) \<longrightarrow>
            fst (extract_pin sh domain w) = Inr (Some (str ''sha256/'' @ stdout result)))
       \<and> (\<forall>b. base64_text b \<and> stdout result = b @ [10] \<longrightarrow>
            fst (extract_pin sh domain w) = Inr (Some (str ''sha256/'' @ b)))"
proof -
  have val: "fst (extract_pin sh domain w) = Inr (Some (str ''sha256/'' @ strip (stdout result)))"
    using assms by (simp add: fst_extract_pin returned_eq)
  have ne: "stdout result \<noteq> []" using assms(3) by (auto simp: strip_def lstrip_def rstrip_def)
  have "\<not> py_isspace (hd (stdout result)) \<and> \<not> py_isspace (last (stdout result)) \<longrightarrow>
          strip (stdout result) = stdout result"
    using ne strip_ident by blast
  moreover have "\<forall>b. base64_text b \<and> stdout result = b @ [10] \<longrightarrow> strip (stdout result) = b"
    using strip_base64_newline by auto
  ultimately show ?thesis using val by auto
qed

theorem extract_pin_success_witness:
  "tool_prints (digest_text @ [10]) (pin_command (str ''api.groq.com''))
     = Inr \<lparr>returncode = 0, stdout = digest_text @ [10]\<rparr>
   \<and> strip (digest_text @ [10]) \<noteq> []
   \<and> base64_text digest_text
   \<and> fst (extract_pin (tool_prints (digest_text @ [10])) (str ''api.groq.com'') initial_world)
     = Inr (Some (str ''sha256/'' @ digest_text))"
proof -
  let ?r = "\<lparr>returncode = 0, stdout = digest_text @ [10]\<rparr>"
  have h1: "tool_prints (digest_text @ [10]) (pin_command (str ''api.groq.com'')) = Inr ?r"
    by (simp add: tool_prints_def)
  have h2: "returncode ?r = 0" by simp
  have b: "base64_text digest_text"
    by (simp add: base64_text_def base64_char_def digest_text_def str_def)
  have h3: "strip (stdout ?r) \<noteq> []"
    by (simp add: strip_digest_text) (simp add: digest_text_def str_def)
  show ?thesis
    using h1 h2 h3 b
      extract_pin_success[of "tool_prints (digest_text @ [10])" "str ''api.groq.com''" ?r initial_world]
    by (simp add: strip_digest_text)
qed

text \<open>
  C1 as stated fails: the tool exits with status 0 and prints a single newline, which
  is output that is not empty, and \<open>extract_pin\<close> returns \<open>None\<close>, not a pin.
\<close>

theorem extract_pin_blank_output_counterexample:
  "tool_prints [10] (pin_command (str ''api.openai.com'')) = Inr \<lparr>returncode = 0, stdout = [10]\<rparr>
   \<and> [10] \<noteq> ([] :: pystr)
   \<and> fst (extract_pin (tool_prints [10]) (str ''api.openai.com'') initial_world) = Inr None
   \<and> fst (extract_pin (tool_prints [10]) (str ''api.openai.com'') initial_world)
       \<noteq> Inr (Some (str ''sha256/'' @ [10]))"
  by (simp add: tool_prints_def fst_extract_pin returned_eq strip_def lstrip_def rstrip_def
      py_isspace_def)




text \<open>
  C10. For every invocation that exits with status 0, \<open>extract_pin\<close> returns a pin if
  and only if the output has a character that is not whitespace; the pin is then
  \<open>sha256/\<close> followed by the output without its leading and trailing whitespace (the
  part \<open>p\<close> of the output between two runs of whitespace, itself neither starting nor
  ending with whitespace), and output that is all whitespace gives \<open>None\<close>.
\<close>

theorem extract_pin_strips_output:
  assumes "sh (pin_command domain) = Inr result" and "returncode result = 0"
  shows "((\<exists>pin. fst (extract_pin sh domain w) = Inr (Some pin)) \<longleftrightarrow>
            (\<exists>c\<in>set (stdout result). \<not> py_isspace c))
       \<and> ((\<forall>c\<in>set (stdout result). py_isspace c) \<longrightarrow> fst (extract_pin sh domain w) = Inr None)
       \<and> ((\<exists>c\<in>set (stdout result). \<not> py_isspace c) \<longrightarrow>
            (\<exists>l p r. stdout result = l @ p @ r
                \<and> (\<forall>c\<in>set l. py_isspace c) \<and> (\<forall>c\<in>set r. py_isspace c)
                \<and> p \<noteq> [] \<and> \<not> py_isspace (hd p) \<and> \<not> py_isspace (last p)
                \<and> p = strip (stdout result)
                \<and> fst (extract_pin sh domain w) = Inr (Some (str ''sha256/'' @ p))))"
proof -
  let ?s = "stdout result"
  have val: "fst (extract_pin sh domain w) =
      (if strip ?s \<noteq> [] then Inr (Some (str ''sha256/'' @ strip ?s)) else Inr None)"
    using assms by (simp add: fst_extract_pin returned_eq)
  have iff: "strip ?s \<noteq> [] \<longleftrightarrow> (\<exists>c\<in>set ?s. \<not> py_isspace c)"
    by (simp add: strip_eq_Nil_iff)
  have a: "(\<exists>pin. fst (extract_pin sh domain w) = Inr (Some pin)) \<longleftrightarrow> (\<exists>c\<in>set ?s. \<not> py_isspace c)"
    using val iff by auto
  have b: "(\<forall>c\<in>set ?s. py_isspace c) \<longrightarrow> fst (extract_pin sh domain w) = Inr None"
    using val iff by auto
  have c: "(\<exists>c\<in>set ?s. \<not> py_isspace c) \<longrightarrow>
            (\<exists>l p r. ?s = l @ p @ r
                \<and> (\<forall>c\<in>set l. py_isspace c) \<and> (\<forall>c\<in>set r. py_isspace c)
                \<and> p \<noteq> [] \<and> \<not> py_isspace (hd p) \<and> \<not> py_isspace (last p)
                \<and> p = strip ?s
                \<and> fst (extract_pin sh domain w) = Inr (Some (str ''sha256/'' @ p)))"
  proof
    assume "\<exists>c\<in>set ?s. \<not> py_isspace c"
    then have ne: "strip ?s \<noteq> []" using iff by simp
    obtain l r where "?s = l @ strip ?s @ r" "\<forall>c\<in>set l. py_isspace c" "\<forall>c\<in>set r. py_isspace c"
      using strip_decomp by blast
    moreover have "\<not> py_isspace (hd (strip ?s))" "\<not> py_isspace (last (strip ?s))"
      using strip_ends[OF ne] by simp_all
    moreover have "fst (extract_pin sh domain w) = Inr (Some (str ''sha256/'' @ strip ?s))"
      using val ne by simp
    ultimately show "\<exists>l p r. ?s = l @ p @ r
                \<and> (\<forall>c\<in>set l. py_isspace c) \<and> (\<forall>c\<in>set r. py_isspace c)
                \<and> p \<noteq> [] \<and> \<not> py_isspace (hd p) \<and> \<not> py_isspace (last p)
                \<and> p = strip ?s
                \<and> fst (extract_pin sh domain w) = Inr (Some (str ''sha256/'' @ p))"
      using ne by blast
  qed
  show ?thesis using a b c by blast
qed

theorem extract_pin_strips_output_witness:
  "tool_prints (digest_text @ [10]) (pin_command (str ''api.openai.com''))
     = Inr \<lparr>returncode = 0, stdout = digest_text @ [10]\<rparr>
   \<and> fst (extract_pin (tool_prints (digest_text @ [10])) (str ''api.openai.com'') initial_world)
     = Inr (Some (str ''sha256/'' @ digest_text))"
proof -
  let ?r = "\<lparr>returncode = 0, stdout = digest_text @ [10]\<rparr>"
  have h1: "tool_prints (digest_text @ [10]) (pin_command (str ''api.openai.com'')) = Inr ?r"
    by (simp add: tool_prints_def)
  have h2: "returncode ?r = 0" by simp
  have ns: "\<exists>c\<in>set (stdout ?r). \<not> py_isspace c"
    by (simp add: digest_text_def str_def py_isspace_def)
  show ?thesis
    using h1 h2 ns strip_digest_text
      extract_pin_strips_output[of "tool_prints (digest_text @ [10])" "str ''api.openai.com''" ?r
        initial_world]
    by auto
qed


text \<open>
  C7. What \<open>extract_pin\<close> prints: one line naming the domain on a timeout, one line
  with the text of the exception on any other exception, and nothing when the
  invocation completes. When the tool exits with a nonzero status or without output,
  \<open>extract_pin\<close> returns \<open>None\<close> without printing, and the only report is the line the
  loop of \<open>main\<close> prints after it.
\<close>

theorem extract_pin_diagnostics:
  "printed (snd (extract_pin sh domain w)) = printed w @
     (case sh (pin_command domain) of
        Inl TimeoutExpired \<Rightarrow>
          [RED @ str ''  '' @ CROSS @ str '' Timeout connecting to '' @ domain @ NC]
      | Inl (OtherException e) \<Rightarrow> [RED @ str ''  '' @ CROSS @ str '' Error: '' @ e @ NC]
      | Inr result \<Rightarrow> [])
   \<and> (\<forall>result. sh (pin_command domain) = Inr result
          \<and> (returncode result \<noteq> 0 \<or> strip (stdout result) = []) \<longrightarrow>
        fst (extract_pin sh domain w) = Inr None
        \<and> printed (snd (extract_pin sh domain w)) = printed w
        \<and> printed (snd (extraction_phase sh [(domain, provider_name)] pins w)) = printed w @
            [YELLOW @ str ''Extracting pin for '' @ provider_name @ str '' ('' @ domain
               @ str '')...'' @ NC,
             RED @ str ''  '' @ CROSS @ str '' Failed to extract pin'' @ NC,
             []])"
proof -
  have a: "printed (snd (extract_pin sh domain w)) = printed w @
     (case sh (pin_command domain) of
        Inl TimeoutExpired \<Rightarrow>
          [RED @ str ''  '' @ CROSS @ str '' Timeout connecting to '' @ domain @ NC]
      | Inl (OtherException e) \<Rightarrow> [RED @ str ''  '' @ CROSS @ str '' Error: '' @ e @ NC]
      | Inr result \<Rightarrow> [])"
    by (simp add: printed_extract_pin reported_eq split: sum.splits run_exn.splits)
  have b: "fst (extract_pin sh domain w) = Inr None
        \<and> printed (snd (extract_pin sh domain w)) = printed w
        \<and> printed (snd (extraction_phase sh [(domain, provider_name)] pins w)) = printed w @
            [YELLOW @ str ''Extracting pin for '' @ provider_name @ str '' ('' @ domain
               @ str '')...'' @ NC,
             RED @ str ''  '' @ CROSS @ str '' Failed to extract pin'' @ NC,
             []]"
    if h: "sh (pin_command domain) = Inr result \<and> (returncode result \<noteq> 0 \<or> strip (stdout result) = [])"
    for result
  proof -
    have r: "returned sh domain = Inr None" using h by (auto simp: returned_eq)
    have p: "reported sh domain = []" using h by (simp add: reported_eq)
    show ?thesis
      unfolding extraction_phase_step
      by (simp add: r p fst_extract_pin printed_extract_pin subprocess_run_def)
  qed
  show ?thesis using a b by blast
qed

theorem extract_pin_diagnostics_witness:
  "tool_exits 1 [] (pin_command (str ''api.groq.com'')) = Inr \<lparr>returncode = 1, stdout = []\<rparr>
   \<and> fst (extract_pin (tool_exits 1 []) (str ''api.groq.com'') initial_world) = Inr None
   \<and> printed (snd (extract_pin (tool_exits 1 []) (str ''api.groq.com'') initial_world)) = []
   \<and> printed (snd (extraction_phase (tool_exits 1 []) [(str ''api.groq.com'', str ''Groq (STT)'')] []
        initial_world)) =
        [YELLOW @ str ''Extracting pin for Groq (STT) (api.groq.com)...'' @ NC,
         RED @ str ''  '' @ CROSS @ str '' Failed to extract pin'' @ NC,
         []]"
proof -
  have h: "tool_exits 1 [] (pin_command (str ''api.groq.com'')) = Inr \<lparr>returncode = 1, stdout = []\<rparr>"
    by (simp add: tool_exits_def)
  have i: "printed initial_world = []" by (simp add: initial_world_def)
  show ?thesis
    using h extract_pin_diagnostics[of "tool_exits 1 []" "str ''api.groq.com''" initial_world
        "str ''Groq (STT)''" "[]"]
    by (simp add: i str_def)
qed

section \<open>Properties of main\<close>

text \<open>
  C4. After the extraction pass the results mapping has exactly six entries, keyed by
  the six domains in the order of the provider list; the keys are inserted in that
  order, the pass over the first \<open>k\<close> providers giving the first \<open>k\<close> keys.
\<close>

theorem results_keys:
  "\<exists>pins w'. extraction_phase sh PROVIDERS [] w = (Inr pins, w')
     \<and> dict_keys pins = map fst PROVIDERS
     \<and> dict_keys pins =
         [str ''api.deepgram.com'', str ''api.assemblyai.com'', str ''api.groq.com'',
          str ''api.elevenlabs.io'', str ''api.openai.com'', str ''api.anthropic.com'']
     \<and> length pins = 6 \<and> distinct (dict_keys pins)
     \<and> (\<forall>k. \<exists>pins_k w_k. extraction_phase sh (take k PROVIDERS) [] w = (Inr pins_k, w_k)
            \<and> dict_keys pins_k = take k (dict_keys pins))"
proof -
  let ?pins = "map (\<lambda>(domain, provider_name). (domain, recorded sh domain)) PROVIDERS"
  have e: "extraction_phase sh PROVIDERS [] w = (Inr ?pins, snd (extraction_phase sh PROVIDERS [] w))"
    using extraction_PROVIDERS[of sh w] by (metis prod.collapse)
  have k: "dict_keys ?pins = map fst PROVIDERS"
    by (simp add: dict_keys_def case_prod_unfold comp_def)
  have k6: "map fst PROVIDERS =
         [str ''api.deepgram.com'', str ''api.assemblyai.com'', str ''api.groq.com'',
          str ''api.elevenlabs.io'', str ''api.openai.com'', str ''api.anthropic.com'']"
    by (simp add: PROVIDERS_def)
  have l: "length ?pins = 6" by (simp add: PROVIDERS_def)
  have d: "distinct (dict_keys ?pins)" using distinct_PROVIDERS k by simp
  have p: "\<exists>pins_k w_k. extraction_phase sh (take k PROVIDERS) [] w = (Inr pins_k, w_k)
            \<and> dict_keys pins_k = take k (dict_keys ?pins)" for k
  proof -
    let ?pk = "map (\<lambda>(domain, provider_name). (domain, recorded sh domain)) (take k PROVIDERS)"
    have "distinct (map fst (take k PROVIDERS))"
      using distinct_PROVIDERS by (simp add: take_map[symmetric])
    then have "fst (extraction_phase sh (take k PROVIDERS) [] w) = Inr ?pk"
      by (rule extraction_phase_distinct)
    then have "extraction_phase sh (take k PROVIDERS) [] w =
        (Inr ?pk, snd (extraction_phase sh (take k PROVIDERS) [] w))"
      by (metis prod.collapse)
    moreover have "dict_keys ?pk = take k (dict_keys ?pins)"
      unfolding k by (simp add: dict_keys_def case_prod_unfold comp_def take_map)
    ultimately show ?thesis by blast
  qed
  show ?thesis using e k k6 l d p by (metis (no_types, lifting))
qed


text \<open>
  C9. Every pin that \<open>extract_pin\<close> returns starts with \<open>sha256/\<close> and so differs from
  the sentinel. Hence an entry of the results mapping differs from
  \<open>FAILED_TO_EXTRACT\<close> exactly when the extraction for its domain returned that very
  pin, and equals it exactly when the extraction returned \<open>None\<close>: the comparison with
  the sentinel in the summary and at the exit classifies every entry correctly.
\<close>

theorem recorded_pin_classification:
  "\<exists>pins w'. run_extraction sh = (Inr pins, w')
     \<and> (\<forall>(domain, pin) \<in> set pins.
          (pin \<noteq> FAILED_TO_EXTRACT \<longrightarrow>
             prefix (str ''sha256/'') pin \<and> fst (extract_pin sh domain w) = Inr (Some pin))
        \<and> (pin = FAILED_TO_EXTRACT \<longrightarrow> fst (extract_pin sh domain w) = Inr None))
     \<and> (\<forall>domain pin. fst (extract_pin sh domain w) = Inr (Some pin) \<longrightarrow>
           prefix (str ''sha256/'') pin \<and> pin \<noteq> FAILED_TO_EXTRACT)"
proof -
  let ?pins = "map (\<lambda>(domain, provider_name). (domain, recorded sh domain)) PROVIDERS"
  have e: "run_extraction sh = (Inr ?pins, snd (run_extraction sh))"
    using run_extraction_fst[of sh] by (metis prod.collapse)
  have a: "\<forall>(domain, pin) \<in> set ?pins.
          (pin \<noteq> FAILED_TO_EXTRACT \<longrightarrow>
             prefix (str ''sha256/'') pin \<and> fst (extract_pin sh domain w) = Inr (Some pin))
        \<and> (pin = FAILED_TO_EXTRACT \<longrightarrow> fst (extract_pin sh domain w) = Inr None)"
  proof (clarify, intro conjI impI)
    fix domain pin
    assume m: "(domain, pin) \<in> set ?pins"
    then have p: "pin = recorded sh domain" by auto
    { assume "pin \<noteq> FAILED_TO_EXTRACT"
      then show "prefix (str ''sha256/'') pin" using p recorded_sha256 by simp
    }
    { assume "pin \<noteq> FAILED_TO_EXTRACT"
      then show "fst (extract_pin sh domain w) = Inr (Some pin)"
        using p recorded_sha256 by (simp add: fst_extract_pin)
    }
    { assume "pin = FAILED_TO_EXTRACT"
      then show "fst (extract_pin sh domain w) = Inr None"
        using p recorded_sentinel_iff by (simp add: fst_extract_pin)
    }
  qed
  have b: "\<forall>domain pin. fst (extract_pin sh domain w) = Inr (Some pin) \<longrightarrow>
           prefix (str ''sha256/'') pin \<and> pin \<noteq> FAILED_TO_EXTRACT"
    using returned_Some_sha256 by (simp add: fst_extract_pin)
  from e a b show ?thesis by blast
qed

theorem recorded_pin_classification_witness:
  "fst (extract_pin (tool_prints (digest_text @ [10])) (str ''api.deepgram.com'') initial_world)
     = Inr (Some (str ''sha256/'' @ digest_text))
   \<and> prefix (str ''sha256/'') (str ''sha256/'' @ digest_text)
   \<and> str ''sha256/'' @ digest_text \<noteq> FAILED_TO_EXTRACT"
proof -
  have v: "fst (extract_pin (tool_prints (digest_text @ [10])) (str ''api.deepgram.com'') initial_world)
     = Inr (Some (str ''sha256/'' @ digest_text))"
    by (simp add: fst_extract_pin returned_eq tool_prints_def strip_digest_text)
       (simp add: digest_text_def str_def)
  from recorded_pin_classification[of "tool_prints (digest_text @ [10])" initial_world]
  have "\<forall>domain pin. fst (extract_pin (tool_prints (digest_text @ [10])) domain initial_world)
            = Inr (Some pin) \<longrightarrow> prefix (str ''sha256/'') pin \<and> pin \<noteq> FAILED_TO_EXTRACT"
    by blast
  then show ?thesis using v by blast
qed

text \<open>
  C6. The extraction pass never stops early: whatever the outcomes, it returns a
  mapping, and the commands invoked during it (and during the whole run) are the
  commands of the six providers, each once, in order. The entry of a domain is the
  sentinel when its invocation timed out or its extraction returned \<open>None\<close>, and the
  returned pin otherwise, whatever happened for the other domains; two tool chains
  that behave alike on the command of a domain give that domain the same entry.
\<close>

theorem extraction_attempts_all:
  "\<exists>pins w' pins2 w2'.
      extraction_phase sh PROVIDERS [] w = (Inr pins, w')
    \<and> extraction_phase sh2 PROVIDERS [] w2 = (Inr pins2, w2')
    \<and> invoked w' = invoked w @ map (\<lambda>(domain, provider_name). pin_command domain) PROVIDERS
    \<and> invoked (snd (main sh)) = map (\<lambda>(domain, provider_name). pin_command domain) PROVIDERS
    \<and> distinct (map (\<lambda>(domain, provider_name). pin_command domain) PROVIDERS)
    \<and> (\<forall>(domain, provider_name) \<in> set PROVIDERS.
         (sh (pin_command domain) = Inl TimeoutExpired \<longrightarrow>
            dict_getitem pins domain = Some FAILED_TO_EXTRACT)
       \<and> (fst (extract_pin sh domain w) = Inr None \<longrightarrow>
            dict_getitem pins domain = Some FAILED_TO_EXTRACT)
       \<and> (\<forall>pin. fst (extract_pin sh domain w) = Inr (Some pin) \<longrightarrow>
            dict_getitem pins domain = Some pin)
       \<and> (sh2 (pin_command domain) = sh (pin_command domain) \<longrightarrow>
            dict_getitem pins2 domain = dict_getitem pins domain))"
proof -
  let ?pins = "map (\<lambda>(domain, provider_name). (domain, recorded sh domain)) PROVIDERS"
  let ?pins2 = "map (\<lambda>(domain, provider_name). (domain, recorded sh2 domain)) PROVIDERS"
  let ?w = "snd (extraction_phase sh PROVIDERS [] w)"
  let ?w2 = "snd (extraction_phase sh2 PROVIDERS [] w2)"
  have e: "extraction_phase sh PROVIDERS [] w = (Inr ?pins, ?w)"
    using extraction_PROVIDERS[of sh w] by (metis prod.collapse)
  have e2: "extraction_phase sh2 PROVIDERS [] w2 = (Inr ?pins2, ?w2)"
    using extraction_PROVIDERS[of sh2 w2] by (metis prod.collapse)
  have i: "invoked ?w = invoked w @ map (\<lambda>(domain, provider_name). pin_command domain) PROVIDERS"
    by (rule invoked_extraction_phase)
  have a: "\<forall>(domain, provider_name) \<in> set PROVIDERS.
         (sh (pin_command domain) = Inl TimeoutExpired \<longrightarrow>
            dict_getitem ?pins domain = Some FAILED_TO_EXTRACT)
       \<and> (fst (extract_pin sh domain w) = Inr None \<longrightarrow>
            dict_getitem ?pins domain = Some FAILED_TO_EXTRACT)
       \<and> (\<forall>pin. fst (extract_pin sh domain w) = Inr (Some pin) \<longrightarrow>
            dict_getitem ?pins domain = Some pin)
       \<and> (sh2 (pin_command domain) = sh (pin_command domain) \<longrightarrow>
            dict_getitem ?pins2 domain = dict_getitem ?pins domain)"
  proof (clarify, intro conjI impI allI)
    fix domain provider_name
    assume m: "(domain, provider_name) \<in> set PROVIDERS"
    have g: "dict_getitem ?pins domain = Some (recorded sh domain)"
      using m by (rule getitem_results)
    have g2: "dict_getitem ?pins2 domain = Some (recorded sh2 domain)"
      using m by (rule getitem_results)
    { assume "sh (pin_command domain) = Inl TimeoutExpired"
      then have "returned sh domain = Inr None" by (simp add: returned_eq)
      then show "dict_getitem ?pins domain = Some FAILED_TO_EXTRACT"
        unfolding g by (simp add: recorded_None)
    }
    { assume "fst (extract_pin sh domain w) = Inr None"
      then have "returned sh domain = Inr None" by (simp add: fst_extract_pin)
      then show "dict_getitem ?pins domain = Some FAILED_TO_EXTRACT"
        unfolding g by (simp add: recorded_None)
    }
    { fix pin assume "fst (extract_pin sh domain w) = Inr (Some pin)"
      then have "returned sh domain = Inr (Some pin)" by (simp add: fst_extract_pin)
      then show "dict_getitem ?pins domain = Some pin"
        unfolding g by (simp add: recorded_Some)
    }
    { assume "sh2 (pin_command domain) = sh (pin_command domain)"
      then have "recorded sh2 domain = recorded sh domain" by (rule recorded_cong)
      then show "dict_getitem ?pins2 domain = dict_getitem ?pins domain"
        unfolding g g2 by simp
    }
  qed
  from e e2 i invoked_main[of sh] distinct_commands a show ?thesis by blast
qed

theorem extraction_attempts_all_witness:
  "\<exists>pins w'. extraction_phase (timeout_for (str ''api.groq.com'') (tool_prints (digest_text @ [10])))
        PROVIDERS [] initial_world = (Inr pins, w')
     \<and> (str ''api.groq.com'', str ''Groq (STT)'') \<in> set PROVIDERS
     \<and> (str ''api.openai.com'', str ''OpenAI (LLM)'') \<in> set PROVIDERS
     \<and> dict_getitem pins (str ''api.groq.com'') = Some FAILED_TO_EXTRACT
     \<and> dict_getitem pins (str ''api.openai.com'') = Some (str ''sha256/'' @ digest_text)"
proof -
  let ?sh = "timeout_for (str ''api.groq.com'') (tool_prints (digest_text @ [10]))"
  have t: "?sh (pin_command (str ''api.groq.com'')) = Inl TimeoutExpired"
    by (rule timeout_for_same)
  have "returned ?sh (str ''api.openai.com'') = returned (tool_prints (digest_text @ [10])) (str ''api.openai.com'')"
    by (rule returned_cong) (simp add: timeout_for_other openai_not_groq)
  then have o: "fst (extract_pin ?sh (str ''api.openai.com'') initial_world)
      = Inr (Some (str ''sha256/'' @ digest_text))"
    by (simp add: fst_extract_pin returned_tool_prints_digest)
  obtain pins w' where
    e: "extraction_phase ?sh PROVIDERS [] initial_world = (Inr pins, w')" and
    a: "\<forall>(domain, provider_name) \<in> set PROVIDERS.
         (?sh (pin_command domain) = Inl TimeoutExpired \<longrightarrow>
            dict_getitem pins domain = Some FAILED_TO_EXTRACT)
       \<and> (\<forall>pin. fst (extract_pin ?sh domain initial_world) = Inr (Some pin) \<longrightarrow>
            dict_getitem pins domain = Some pin)"
    using extraction_attempts_all[of ?sh initial_world ?sh initial_world] by fastforce
  have "dict_getitem pins (str ''api.groq.com'') = Some FAILED_TO_EXTRACT"
    using a groq_provider t by fastforce
  moreover have "dict_getitem pins (str ''api.openai.com'') = Some (str ''sha256/'' @ digest_text)"
    using a openai_provider o by fastforce
  ultimately show ?thesis using e groq_provider openai_provider by blast
qed


text \<open>
  C3. A run ends with exit code 0 or 1, never with an exception. The code is 0 if and
  only if the extraction succeeded for all six providers, and 1 if and only if the
  results mapping holds the sentinel. With code 1 the output ends, after the notes,
  with the warning block: an empty line, the warning line, one line for each domain
  whose entry is the sentinel and for no other, in the order of the mapping, an empty
  line and the closing advice. With code 0 the output ends with the notes.
\<close>

theorem main_exit_code:
  "\<exists>pins w1 code w.
      run_extraction sh = (Inr pins, w1) \<and> main sh = (Inr code, w)
    \<and> (code = 0 \<or> code = 1)
    \<and> (code = 0 \<longleftrightarrow>
         (\<forall>(domain, provider_name) \<in> set PROVIDERS.
             \<exists>pin. fst (extract_pin sh domain w0) = Inr (Some pin)))
    \<and> (code = 1 \<longleftrightarrow> FAILED_TO_EXTRACT \<in> snd ` set pins)
    \<and> (code = 1 \<longrightarrow>
         (\<exists>before. printed w =
            before @ [rule50, str ''Done!'', rule50]
            @ [[], RED @ str ''WARNING: Failed to extract pins for:'' @ NC]
            @ map (\<lambda>domain. str ''  - '' @ domain)
                (filter (\<lambda>domain. dict_getitem pins domain = Some FAILED_TO_EXTRACT) (dict_keys pins))
            @ [[], str ''Please check your network connection and try again.'']))
    \<and> (code = 0 \<longrightarrow> (\<exists>before. printed w = before @ [rule50, str ''Done!'', rule50]))"
proof -
  let ?pins = "map (\<lambda>(domain, provider_name). (domain, recorded sh domain)) PROVIDERS"
  let ?code = "if failures ?pins \<noteq> [] then 1 else 0 :: int"
  let ?w = "snd (main sh)"
  have e: "run_extraction sh = (Inr ?pins, snd (run_extraction sh))"
    using run_extraction_fst[of sh] by (metis prod.collapse)
  have m: "main sh = (Inr ?code, ?w)" by (rule main_result)
  have c01: "?code = 0 \<or> ?code = 1" by simp
  have c0: "?code = 0 \<longleftrightarrow>
         (\<forall>(domain, provider_name) \<in> set PROVIDERS.
             \<exists>pin. fst (extract_pin sh domain w0) = Inr (Some pin))"
    using failures_Nil_iff[of sh] by (simp add: fst_extract_pin)
  have c1: "?code = 1 \<longleftrightarrow> FAILED_TO_EXTRACT \<in> snd ` set ?pins"
    using failures_sentinel[of ?pins] by simp
  obtain b where b: "printed ?w = b @ [rule50, str ''Done!'', rule50] @
     (if failures ?pins \<noteq> [] then
        [[], RED @ str ''WARNING: Failed to extract pins for:'' @ NC]
        @ map (\<lambda>domain. str ''  - '' @ domain) (failures ?pins)
        @ [[], str ''Please check your network connection and try again.'']
      else [])"
    using printed_main_tail by blast
  have f: "failures ?pins =
      filter (\<lambda>domain. dict_getitem ?pins domain = Some FAILED_TO_EXTRACT) (dict_keys ?pins)"
    by (rule failures_results)
  have p1: "?code = 1 \<longrightarrow>
         (\<exists>before. printed ?w =
            before @ [rule50, str ''Done!'', rule50]
            @ [[], RED @ str ''WARNING: Failed to extract pins for:'' @ NC]
            @ map (\<lambda>domain. str ''  - '' @ domain)
                (filter (\<lambda>domain. dict_getitem ?pins domain = Some FAILED_TO_EXTRACT) (dict_keys ?pins))
            @ [[], str ''Please check your network connection and try again.''])"
  proof
    assume "?code = 1"
    then have "failures ?pins \<noteq> []" by (simp split: if_splits)
    then have "printed ?w = b @ [rule50, str ''Done!'', rule50]
            @ [[], RED @ str ''WARNING: Failed to extract pins for:'' @ NC]
            @ map (\<lambda>domain. str ''  - '' @ domain) (failures ?pins)
            @ [[], str ''Please check your network connection and try again.'']"
      using b by simp
    then show "\<exists>before. printed ?w =
            before @ [rule50, str ''Done!'', rule50]
            @ [[], RED @ str ''WARNING: Failed to extract pins for:'' @ NC]
            @ map (\<lambda>domain. str ''  - '' @ domain)
                (filter (\<lambda>domain. dict_getitem ?pins domain = Some FAILED_TO_EXTRACT) (dict_keys ?pins))
            @ [[], str ''Please check your network connection and try again.'']"
      unfolding f[symmetric] by blast
  qed
  have p0: "?code = 0 \<longrightarrow> (\<exists>before. printed ?w = before @ [rule50, str ''Done!'', rule50])"
  proof
    assume "?code = 0"
    then have "failures ?pins = []" by (simp split: if_splits)
    then have "printed ?w = b @ [rule50, str ''Done!'', rule50]" using b by simp
    then show "\<exists>before. printed ?w = before @ [rule50, str ''Done!'', rule50]" by blast
  qed
  from e m c01 c0 c1 p1 p0 show ?thesis by blast
qed

theorem main_exit_code_witness:
  "(str ''api.groq.com'', str ''Groq (STT)'') \<in> set PROVIDERS
   \<and> fst (main (tool_prints (digest_text @ [10]))) = Inr 0
   \<and> fst (main (timeout_for (str ''api.groq.com'') (tool_prints (digest_text @ [10])))) = Inr 1"
proof -
  let ?ok = "tool_prints (digest_text @ [10])"
  let ?bad = "timeout_for (str ''api.groq.com'') ?ok"
  have all_ok: "\<forall>(domain, provider_name) \<in> set PROVIDERS.
      \<exists>pin. fst (extract_pin ?ok domain initial_world) = Inr (Some pin)"
    by (simp add: fst_extract_pin returned_tool_prints_digest)
  obtain code w where "main ?ok = (Inr code, w)"
    and "code = 0 \<longleftrightarrow> (\<forall>(domain, provider_name) \<in> set PROVIDERS.
             \<exists>pin. fst (extract_pin ?ok domain initial_world) = Inr (Some pin))"
    using main_exit_code[of ?ok initial_world] by blast
  then have ok: "fst (main ?ok) = Inr 0" using all_ok by simp
  have "fst (extract_pin ?bad (str ''api.groq.com'') initial_world) = Inr None"
    by (simp add: fst_extract_pin returned_eq timeout_for_same)
  then have not_all: "\<not> (\<forall>(domain, provider_name) \<in> set PROVIDERS.
      \<exists>pin. fst (extract_pin ?bad domain initial_world) = Inr (Some pin))"
    using groq_provider by force
  obtain code' w' where "main ?bad = (Inr code', w')" and "code' = 0 \<or> code' = 1"
    and "code' = 0 \<longleftrightarrow> (\<forall>(domain, provider_name) \<in> set PROVIDERS.
             \<exists>pin. fst (extract_pin ?bad domain initial_world) = Inr (Some pin))"
    using main_exit_code[of ?bad initial_world] by blast
  then have bad: "fst (main ?bad) = Inr 1" using not_all by auto
  show ?thesis using ok bad groq_provider by blast
qed

text \<open>
  C5. Whatever the outcomes of the extractions, the template phase raises nothing and
  prints, after the preamble, for each of the six providers in the order of the list:
  the comment line with its label; the \<open>.add\<close> line with the domain and the pin, both
  in double quotes, where the pin is the one \<open>extract_pin\<close> returned for the domain, or
  the text \<open>FAILED_TO_EXTRACT\<close> when it returned none; the \<open>.add\<close> line with the domain
  and the placeholder \<open>sha256/BACKUP_PIN_HERE\<close>, followed by its comment; and an empty
  line. Then it prints the closing lines. Every run prints this text, and twelve of
  its lines start with \<open>.add(\<close>. The code point 0x22 is the double quote.
\<close>

theorem template_lines_literal:
  "\<exists>pins w1 code wf before after text.
      run_extraction sh = (Inr pins, w1) \<and> main sh = (Inr code, wf)
    \<and> text =
          [replicate 50 61, str ''Kotlin Code for CertificatePinning.kt'', replicate 50 61, [],
           str ''// Update app/src/main/kotlin/com/unamentis/data/remote/CertificatePinning.kt'',
           str ''// Replace the placeholder pins with these actual pins:'',
           [],
           str ''val pinner: CertificatePinner by lazy {'',
           str ''    CertificatePinner.Builder()'']
          @ concat (map (\<lambda>(domain, provider_name).
              [str ''        // '' @ provider_name,
               str ''        .add('' @ [0x22] @ domain @ [0x22] @ str '', '' @ [0x22]
                 @ (case fst (extract_pin sh domain w0) of
                      Inr (Some pin) \<Rightarrow> pin
                    | _ \<Rightarrow> str ''FAILED_TO_EXTRACT'')
                 @ [0x22] @ str '')'',
               str ''        .add('' @ [0x22] @ domain @ [0x22] @ str '', '' @ [0x22]
                 @ str ''sha256/BACKUP_PIN_HERE'' @ [0x22] @ str '') // Add backup pin'',
               []])
              [(str ''api.deepgram.com'', str ''Deepgram (STT + TTS)''),
               (str ''api.assemblyai.com'', str ''AssemblyAI (STT)''),
               (str ''api.groq.com'', str ''Groq (STT)''),
               (str ''api.elevenlabs.io'', str ''ElevenLabs (TTS)''),
               (str ''api.openai.com'', str ''OpenAI (LLM)''),
               (str ''api.anthropic.com'', str ''Anthropic (LLM)'')])
          @ [str ''        .build()'', str ''}'', []]
    \<and> fst (template_phase pins w) = Inr ()
    \<and> printed (snd (template_phase pins w)) = printed w @ text
    \<and> printed wf = before @ text @ after
    \<and> length (filter (prefix (str ''        .add('')) text) = 12"
proof -
  let ?pins = "map (\<lambda>(domain, provider_name). (domain, recorded sh domain)) PROVIDERS"
  let ?text = "template_text (recorded sh)"
  have e: "run_extraction sh = (Inr ?pins, snd (run_extraction sh))"
    using run_extraction_fst[of sh] by (metis prod.collapse)
  obtain code where m: "main sh = (Inr code, snd (main sh))"
    using main_result by blast
  have l: "?text =
          [replicate 50 61, str ''Kotlin Code for CertificatePinning.kt'', replicate 50 61, [],
           str ''// Update app/src/main/kotlin/com/unamentis/data/remote/CertificatePinning.kt'',
           str ''// Replace the placeholder pins with these actual pins:'',
           [],
           str ''val pinner: CertificatePinner by lazy {'',
           str ''    CertificatePinner.Builder()'']
          @ concat (map (\<lambda>(domain, provider_name).
              [str ''        // '' @ provider_name,
               str ''        .add('' @ [0x22] @ domain @ [0x22] @ str '', '' @ [0x22]
                 @ (case fst (extract_pin sh domain w0) of
                      Inr (Some pin) \<Rightarrow> pin
                    | _ \<Rightarrow> str ''FAILED_TO_EXTRACT'')
                 @ [0x22] @ str '')'',
               str ''        .add('' @ [0x22] @ domain @ [0x22] @ str '', '' @ [0x22]
                 @ str ''sha256/BACKUP_PIN_HERE'' @ [0x22] @ str '') // Add backup pin'',
               []])
              [(str ''api.deepgram.com'', str ''Deepgram (STT + TTS)''),
               (str ''api.assemblyai.com'', str ''AssemblyAI (STT)''),
               (str ''api.groq.com'', str ''Groq (STT)''),
               (str ''api.elevenlabs.io'', str ''ElevenLabs (TTS)''),
               (str ''api.openai.com'', str ''OpenAI (LLM)''),
               (str ''api.anthropic.com'', str ''Anthropic (LLM)'')])
          @ [str ''        .build()'', str ''}'', []]"
    by (rule template_text_literal[symmetric])
  have t1: "fst (template_phase ?pins w) = Inr ()"
    by (simp add: template_phase_text)
  have t2: "printed (snd (template_phase ?pins w)) = printed w @ ?text"
    by (simp add: template_phase_text)
  obtain before after where p: "printed (snd (main sh)) = before @ ?text @ after"
    using printed_main_template by blast
  have c: "length (filter (prefix (str ''        .add('')) ?text) = 12"
    using count_add_lines[of "recorded sh"] by (simp add: PROVIDERS_def)
  from e m l t1 t2 p c show ?thesis by blast
qed

theorem template_lines_literal_witness:
  "fst (extract_pin (timeout_for (str ''api.groq.com'') (tool_prints (digest_text @ [10])))
          (str ''api.groq.com'') initial_world) = Inr None
   \<and> str ''        .add('' @ [0x22] @ str ''api.groq.com'' @ [0x22] @ str '', '' @ [0x22]
         @ str ''FAILED_TO_EXTRACT'' @ [0x22] @ str '')''
       \<in> set (printed (snd (main (timeout_for (str ''api.groq.com'') (tool_prints (digest_text @ [10]))))))"
proof -
  let ?sh = "timeout_for (str ''api.groq.com'') (tool_prints (digest_text @ [10]))"
  let ?line = "str ''        .add('' @ [0x22] @ str ''api.groq.com'' @ [0x22] @ str '', '' @ [0x22]
         @ str ''FAILED_TO_EXTRACT'' @ [0x22] @ str '')''"
  have n: "fst (extract_pin ?sh (str ''api.groq.com'') initial_world) = Inr None"
    by (simp add: fst_extract_pin returned_eq timeout_for_same)
  obtain code wf before after lines where
    m: "main ?sh = (Inr code, wf)" and
    p: "printed wf = before @ lines @ after" and
    t: "lines =
          [replicate 50 61, str ''Kotlin Code for CertificatePinning.kt'', replicate 50 61, [],
           str ''// Update app/src/main/kotlin/com/unamentis/data/remote/CertificatePinning.kt'',
           str ''// Replace the placeholder pins with these actual pins:'',
           [],
           str ''val pinner: CertificatePinner by lazy {'',
           str ''    CertificatePinner.Builder()'']
          @ concat (map (\<lambda>(domain, provider_name).
              [str ''        // '' @ provider_name,
               str ''        .add('' @ [0x22] @ domain @ [0x22] @ str '', '' @ [0x22]
                 @ (case fst (extract_pin ?sh domain initial_world) of
                      Inr (Some pin) \<Rightarrow> pin
                    | _ \<Rightarrow> str ''FAILED_TO_EXTRACT'')
                 @ [0x22] @ str '')'',
               str ''        .add('' @ [0x22] @ domain @ [0x22] @ str '', '' @ [0x22]
                 @ str ''sha256/BACKUP_PIN_HERE'' @ [0x22] @ str '') // Add backup pin'',
               []])
              [(str ''api.deepgram.com'', str ''Deepgram (STT + TTS)''),
               (str ''api.assemblyai.com'', str ''AssemblyAI (STT)''),
               (str ''api.groq.com'', str ''Groq (STT)''),
               (str ''api.elevenlabs.io'', str ''ElevenLabs (TTS)''),
               (str ''api.openai.com'', str ''OpenAI (LLM)''),
               (str ''api.anthropic.com'', str ''Anthropic (LLM)'')])
          @ [str ''        .build()'', str ''}'', []]"
    using template_lines_literal[where sh = ?sh and ?w0.0 = initial_world and w = initial_world]
    by blast
  have "?line \<in> set lines" unfolding t by (simp add: n)
  then have "?line \<in> set (printed wf)" unfolding p by simp
  moreover have "wf = snd (main ?sh)" using m by simp
  ultimately show ?thesis using n by blast
qed

end
